theory Spec2Isabelle
  imports Main "HOL-Library.Sublist"
begin

section \<open>Python values, exceptions and the outside world\<close>

text \<open>
  The SDK is dynamically typed Python. Values that the code inspects at run time
  (\<open>isinstance\<close>, \<open>is None\<close>, subscripting, iteration) are modelled by \<open>pyval\<close>.
  A \<open>PSet\<close> is a Python set literal; a \<open>PDict\<close> is a dict with string keys, kept as an
  association list. Arguments that the code only ever treats as text are typed \<open>string\<close>,
  and an argument that may also be \<open>None\<close> is a \<open>string option\<close>.
\<close>

datatype pyval =
    PNone
  | PBool bool
  | PInt int
  | PStr string
  | PList "pyval list"
  | PDict "(string \<times> pyval) list"
  | PSet "pyval list"

text \<open>
  Exceptions are values. \<open>GlpiInvalidArgument\<close> is a subclass of \<open>GlpiException\<close>;
  \<open>KeyError\<close> and \<open>IndexError\<close> are the subclasses of Python's \<open>LookupError\<close>.
  \<open>RequestException\<close> stands for whatever the HTTP library raises on a transport failure.
\<close>

datatype exn =
    GlpiException string
  | GlpiInvalidArgument string
  | KeyError
  | IndexError
  | TypeError
  | AttributeError
  | ValueError
  | PyException string
  | RequestException string

fun is_GlpiException :: "exn \<Rightarrow> bool" where
  "is_GlpiException (GlpiException m) = True"
| "is_GlpiException (GlpiInvalidArgument m) = True"
| "is_GlpiException e = False"

fun is_LookupError :: "exn \<Rightarrow> bool" where
  "is_LookupError KeyError = True"
| "is_LookupError IndexError = True"
| "is_LookupError e = False"

text \<open>\<open>str(e)\<close> of an exception built from one message argument is that message.\<close>

fun exn_str :: "exn \<Rightarrow> string" where
  "exn_str (GlpiException m) = m"
| "exn_str (GlpiInvalidArgument m) = m"
| "exn_str (PyException m) = m"
| "exn_str (RequestException m) = m"
| "exn_str e = []"

datatype auth = GLpiAuth string | BasicAuth "string option" "string option"

record http_request =
  req_method :: string
  req_url :: string
  req_auth :: "auth option"
  req_headers :: "(string \<times> pyval) list"
  req_params :: "(string \<times> pyval) list option"
  req_data :: "string option"
  req_verify :: bool

text \<open>
  A response of the HTTP library: \<open>json_body = None\<close> means that \<open>r.json()\<close> raises
  \<open>ValueError\<close> (the body is not JSON).
\<close>

record response =
  status_code :: int
  content :: string
  json_body :: "pyval option"

text \<open>
  Everything the code obtains from outside the repository is a field of \<open>env\<close>:
  the HTTP server (its answer may depend on the calls made so far; \<open>Inl\<close> is an exception
  raised by \<open>requests.request\<close>), the text chunks that the standard \<open>HTMLParser\<close> hands to
  \<open>handle_data\<close>, Python's \<open>repr\<close> of containers, Python's \<open>lower\<close> method of text (on text
  decoded from JSON it maps the capital letters of every alphabet, not only A to Z), the
  package's \<open>__version__\<close>, and the decoded \<open>VCAP_SERVICES\<close> environment variable.
  The list of requests issued so far is threaded through every function that can reach
  the network.
\<close>

type_synonym credentials = "(string \<times> string) list"
type_synonym vcap_doc = "(string \<times> (string \<times> credentials) list list) list"

record env =
  server :: "http_request list \<Rightarrow> http_request \<Rightarrow> exn + response"
  html_data :: "string \<Rightarrow> string list"
  py_repr :: "pyval \<Rightarrow> string"
  str_lower :: "string \<Rightarrow> string"
  version :: string
  getenv_vcap :: "string option"
  json_loads :: "string \<Rightarrow> exn + vcap_doc"

definition requests_request ::
  "env \<Rightarrow> http_request \<Rightarrow> http_request list \<Rightarrow> (exn + response) \<times> http_request list" where
  "requests_request e rq net = (server e net rq, net @ [rq])"

section \<open>Strings and formatting\<close>

definition digit_char :: "nat \<Rightarrow> char" where
  "digit_char n = ''0123456789'' ! (n mod 10)"

fun string_of_nat :: "nat \<Rightarrow> string" where
  "string_of_nat n =
     (if n < 10 then [digit_char n] else string_of_nat (n div 10) @ [digit_char (n mod 10)])"

declare string_of_nat.simps [simp del]

definition string_of_int :: "int \<Rightarrow> string" where
  "string_of_int i = (if i < 0 then CHR ''-'' # string_of_nat (nat (- i)) else string_of_nat (nat i))"

text \<open>\<open>str(v)\<close>, as used by \<open>%s\<close> and \<open>'{}'.format\<close>.\<close>

fun py_str :: "env \<Rightarrow> pyval \<Rightarrow> string" where
  "py_str e PNone = ''None''"
| "py_str e (PBool b) = (if b then ''True'' else ''False'')"
| "py_str e (PInt i) = string_of_int i"
| "py_str e (PStr s) = s"
| "py_str e v = py_repr e v"

definition str_opt :: "string option \<Rightarrow> string" where
  "str_opt x = (case x of None \<Rightarrow> ''None'' | Some s \<Rightarrow> s)"

definition opt_val :: "string option \<Rightarrow> pyval" where
  "opt_val x = (case x of None \<Rightarrow> PNone | Some s \<Rightarrow> PStr s)"

text \<open>\<open>isinstance(v, int)\<close>: in Python \<open>bool\<close> is a subclass of \<open>int\<close>.\<close>

fun is_int :: "pyval \<Rightarrow> bool" where
  "is_int (PInt i) = True"
| "is_int (PBool b) = True"
| "is_int v = False"

text \<open>\<open>'%d' % v\<close>: a number is required.\<close>

fun fmt_d :: "pyval \<Rightarrow> exn + string" where
  "fmt_d (PInt i) = Inr (string_of_int i)"
| "fmt_d (PBool b) = Inr (if b then ''1'' else ''0'')"
| "fmt_d v = Inl TypeError"

text \<open>
  \<open>s.lower()\<close> is the method of the language, taken from the environment. Its restriction
  to ASCII, where the letters A to Z are mapped and all else is kept, is \<open>ascii_lower\<close>; the
  concrete environment below uses it.
\<close>

definition lower_char :: "char \<Rightarrow> char" where
  "lower_char c =
     (case map_of (zip ''ABCDEFGHIJKLMNOPQRSTUVWXYZ'' ''abcdefghijklmnopqrstuvwxyz'') c of
        None \<Rightarrow> c
      | Some l \<Rightarrow> l)"

definition ascii_lower :: "string \<Rightarrow> string" where
  "ascii_lower s = map lower_char s"

definition py_lower :: "env \<Rightarrow> string \<Rightarrow> string" where
  "py_lower e s = str_lower e s"

text \<open>\<open>s.strip(c)\<close> for a single character \<open>c\<close>, and \<open>s.strip()\<close> for whitespace.\<close>

definition py_strip :: "char \<Rightarrow> string \<Rightarrow> string" where
  "py_strip c s = rev (dropWhile (\<lambda>x. x = c) (rev (dropWhile (\<lambda>x. x = c) s)))"

definition is_space :: "char \<Rightarrow> bool" where
  "is_space c = (c \<in> set [CHR '' '', CHR 0x09, CHR 0x0A, CHR 0x0B, CHR 0x0C, CHR 0x0D])"

definition py_strip_ws :: "string \<Rightarrow> string" where
  "py_strip_ws s = rev (dropWhile is_space (rev (dropWhile is_space s)))"

definition startswith_slash :: "string \<Rightarrow> bool" where
  "startswith_slash s = (case s of [] \<Rightarrow> False | c # cs \<Rightarrow> c = CHR ''/'')"

text \<open>\<open>s.split(c)\<close> for a single-character separator.\<close>

fun py_split :: "char \<Rightarrow> string \<Rightarrow> string list" where
  "py_split c [] = [[]]"
| "py_split c (x # xs) =
     (if x = c then [] # py_split c xs
      else (case py_split c xs of [] \<Rightarrow> [[x]] | w # ws \<Rightarrow> (x # w) # ws))"

definition py_index :: "'a list \<Rightarrow> nat \<Rightarrow> exn + 'a" where
  "py_index xs i = (if i < length xs then Inr (xs ! i) else Inl IndexError)"

text \<open>\<open>s.replace(c, new)\<close> for a single-character pattern.\<close>

definition py_replace :: "char \<Rightarrow> string \<Rightarrow> string \<Rightarrow> string" where
  "py_replace c new s = concat (map (\<lambda>x. if x = c then new else [x]) s)"

text \<open>
  \<open>sub in s\<close> on strings: is \<open>sub\<close> a contiguous part of \<open>s\<close>? Text beyond ASCII is
  held in UTF-8, where one text is part of another as characters exactly when it is as
  bytes.
\<close>

fun starts_with :: "string \<Rightarrow> string \<Rightarrow> bool" where
  "starts_with [] s = True"
| "starts_with (p # ps) [] = False"
| "starts_with (p # ps) (c # cs) = (p = c \<and> starts_with ps cs)"

fun str_contains :: "string \<Rightarrow> string \<Rightarrow> bool" where
  "str_contains sub [] = (sub = [])"
| "str_contains sub (c # cs) = (starts_with sub (c # cs) \<or> str_contains sub cs)"

section \<open>Dictionaries\<close>

definition dict_contains :: "('k \<times> 'v) list \<Rightarrow> 'k \<Rightarrow> bool" where
  "dict_contains d k = (map_of d k \<noteq> None)"

definition dict_get :: "('k \<times> 'v) list \<Rightarrow> 'k \<Rightarrow> exn + 'v" where
  "dict_get d k = (case map_of d k of None \<Rightarrow> Inl KeyError | Some v \<Rightarrow> Inr v)"

text \<open>\<open>d.update({k: v})\<close>: an existing key keeps its place and gets the new value.\<close>

fun dict_update :: "'k \<Rightarrow> 'v \<Rightarrow> ('k \<times> 'v) list \<Rightarrow> ('k \<times> 'v) list" where
  "dict_update k v [] = [(k, v)]"
| "dict_update k v ((k', v') # d) =
     (if k' = k then (k, v) # d else (k', v') # dict_update k v d)"

text \<open>\<open>v[key]\<close> with a string key on an arbitrary value.\<close>

fun py_getitem :: "pyval \<Rightarrow> string \<Rightarrow> exn + pyval" where
  "py_getitem (PDict d) k = dict_get d k"
| "py_getitem v k = Inl TypeError"

text \<open>The update of a \<open>CaseInsensitiveDict\<close> (header names).\<close>

fun ci_update :: "env \<Rightarrow> string \<Rightarrow> 'v \<Rightarrow> (string \<times> 'v) list \<Rightarrow> (string \<times> 'v) list" where
  "ci_update e k v [] = [(k, v)]"
| "ci_update e k v ((k', v') # d) =
     (if py_lower e k' = py_lower e k then (k, v) # d else (k', v') # ci_update e k v d)"

definition ci_update_all :: "env \<Rightarrow> (string \<times> 'v) list \<Rightarrow> (string \<times> 'v) list \<Rightarrow> (string \<times> 'v) list" where
  "ci_update_all e new d = fold (\<lambda>(k, v). ci_update e k v) new d"

section \<open>Module-level helpers\<close>

definition load_from_vcap_services :: "env \<Rightarrow> string option \<Rightarrow> exn + credentials option" where
  "load_from_vcap_services e service_name =
     (case getenv_vcap e of
        None \<Rightarrow> Inr None
      | Some vcap_services \<Rightarrow>
          (case json_loads e vcap_services of
             Inl x \<Rightarrow> Inl x
           | Inr services \<Rightarrow>
               (case service_name of
                  None \<Rightarrow> Inr None
                | Some n \<Rightarrow>
                    if dict_contains services n then
                      (case dict_get services n of
                         Inl x \<Rightarrow> Inl x
                       | Inr entries \<Rightarrow>
                           (case py_index entries 0 of
                              Inl x \<Rightarrow> Inl x
                            | Inr entry \<Rightarrow>
                                (case dict_get entry ''credentials'' of
                                   Inl x \<Rightarrow> Inl x
                                 | Inr c \<Rightarrow> Inr (Some c))))
                    else Inr None)))"

definition remove_null_values :: "(string \<times> pyval) list \<Rightarrow> (string \<times> pyval) list" where
  "remove_null_values dictionary = filter (\<lambda>(k, v). v \<noteq> PNone) dictionary"

fun cleanup_param_value :: "pyval \<Rightarrow> pyval" where
  "cleanup_param_value (PBool b) = PStr (if b then ''true'' else ''false'')"
| "cleanup_param_value v = v"

definition cleanup_param_values :: "(string \<times> pyval) list \<Rightarrow> (string \<times> pyval) list" where
  "cleanup_param_values dictionary = map (\<lambda>(k, v). (k, cleanup_param_value v)) dictionary"

text \<open>
  \<open>_glpi_html_parser\<close>: the data tokens of the markup, stripped, the empty ones dropped
  (\<open>handle_data\<close>), then those starting with \<open>/\<close> dropped (\<open>get_data_clear\<close>).
\<close>

definition glpi_html_parser :: "env \<Rightarrow> string \<Rightarrow> string list" where
  "glpi_html_parser e c =
     filter (\<lambda>r. \<not> startswith_slash r)
       (filter (\<lambda>d. d \<noteq> []) (map py_strip_ws (html_data e c)))"

section \<open>The transport layer: class \<open>GlpiService\<close>\<close>

record service =
  url :: string
  app_token :: "string option"
  uri :: "string option"
  username :: "string option"
  password :: "string option"
  token_auth :: "string option"
  sslverify :: bool
  writable :: bool
  session :: pyval

type_synonym 'a io = "(exn + 'a) \<times> service \<times> http_request list"

definition set_username_and_password :: "string option \<Rightarrow> string option \<Rightarrow> service \<Rightarrow> service" where
  "set_username_and_password u p s =
     (let u = (if u = Some ''YOUR SERVICE USERNAME'' then None else u);
          p = (if p = Some ''YOUR SERVICE PASSWORD'' then None else p)
      in s\<lparr>username := u, password := p\<rparr>)"

definition set_token_auth :: "string option \<Rightarrow> service \<Rightarrow> service" where
  "set_token_auth t s =
     (let t = (if t = Some ''YOUR AUTH TOKEN'' then None else t) in s\<lparr>token_auth := t\<rparr>)"

definition set_uri :: "string option \<Rightarrow> service \<Rightarrow> service" where
  "set_uri u s = s\<lparr>uri := u\<rparr>"

text \<open>\<open>not x\<close> for a value that is \<open>None\<close> or a string.\<close>

definition falsy :: "string option \<Rightarrow> bool" where
  "falsy x = (x = None \<or> x = Some [])"

text \<open>
  The part of \<open>GlpiService.__init__\<close> that reads the credential bundle of the environment.
\<close>

definition init_from_vcap :: "env \<Rightarrow> string option \<Rightarrow> service \<Rightarrow> exn + service" where
  "init_from_vcap e vcap_services_name s =
     (case load_from_vcap_services e vcap_services_name of
        Inl x \<Rightarrow> Inl x
      | Inr None \<Rightarrow> Inr s
      | Inr (Some c) \<Rightarrow>
          (case dict_get c ''url'' of
             Inl x \<Rightarrow> Inl x
           | Inr u \<Rightarrow>
               (let s = s\<lparr>url := u\<rparr>;
                    s = (if dict_contains c ''username'' then s\<lparr>username := map_of c ''username''\<rparr> else s);
                    s = (if dict_contains c ''password'' then s\<lparr>password := map_of c ''password''\<rparr> else s);
                    s = (if dict_contains c ''token_auth'' then s\<lparr>token_auth := map_of c ''token_auth''\<rparr> else s);
                    s = (if dict_contains c ''app_token'' then s\<lparr>app_token := map_of c ''app_token''\<rparr> else s)
                in Inr s)))"

text \<open>
  \<open>GlpiService.__init__\<close>. The object exists for the caller only when the constructor
  returns: \<open>Inl\<close> is the exception raised, and then there is no service.
\<close>

definition GlpiService_init ::
  "env \<Rightarrow> string \<Rightarrow> string option \<Rightarrow> string option \<Rightarrow> string option \<Rightarrow> string option \<Rightarrow>
   string option \<Rightarrow> bool \<Rightarrow> string option \<Rightarrow> bool \<Rightarrow> bool \<Rightarrow> exn + service" where
  "GlpiService_init e url_apirest token_app uri0 username0 password0 token_auth0
       use_vcap_services vcap_services_name sslverify0 writable0 =
     (let s = \<lparr>url = url_apirest, app_token = token_app, uri = uri0,
                username = username0, password = password0, token_auth = token_auth0,
                sslverify = sslverify0, writable = writable0, session = PNone\<rparr>
      in case (if token_auth0 \<noteq> None then
                 (if username0 \<noteq> None \<or> password0 \<noteq> None then
                    Inl (GlpiInvalidArgument
                           ''Cannot set token_auth and username and password together'')
                  else Inr (set_token_auth token_auth0 s))
               else Inr (set_username_and_password username0 password0 s)) of
           Inl x \<Rightarrow> Inl x
         | Inr s \<Rightarrow>
             (case (if use_vcap_services \<and> falsy (username s) \<and> falsy (token_auth s)
                    then init_from_vcap e vcap_services_name s else Inr s) of
                Inl x \<Rightarrow> Inl x
              | Inr s \<Rightarrow>
                  if app_token s = None then
                    Inl (GlpiException
                           ''You must specify GLPI API-Token(app_token) to make API calls'')
                  else if (username s = None \<or> password s = None) \<and> token_auth s = None then
                    Inl (GlpiException
                           ''You must specify your username and password, or token_authservice credentials '')
                  else Inr s))"

definition response_json :: "response \<Rightarrow> exn + pyval" where
  "response_json r = (case json_body r of None \<Rightarrow> Inl ValueError | Some j \<Rightarrow> Inr j)"

definition init_request :: "service \<Rightarrow> http_request" where
  "init_request s =
     (let full_url = url s @ ''/initSession'';
          full_url = (if writable s then full_url @ ''?session_write=true'' else full_url);
          headers = [(''App-Token'', opt_val (app_token s)),
                     (''Content-Type'', PStr ''application/json'')];
          auth = (case token_auth s of
                    Some t \<Rightarrow> GLpiAuth t
                  | None \<Rightarrow> BasicAuth (username s) (password s))
      in \<lparr>req_method = ''GET'', req_url = full_url, req_auth = Some auth,
          req_headers = headers, req_params = None, req_data = None,
          req_verify = sslverify s\<rparr>)"

text \<open>
  \<open>set_session_token\<close> (the spec's \<open>initSession\<close>). The request is sent outside the
  \<open>try\<close>, so an exception of the HTTP library passes through. Inside the \<open>try\<close>, every
  exception, the \<open>GlpiException\<close> of the non-200 branch included, is caught by
  \<open>except Exception\<close> and replaced by the second \<open>GlpiException\<close>.
\<close>

definition init_error_message :: "env \<Rightarrow> response \<Rightarrow> string" where
  "init_error_message e r =
     ''ERROR when try to init session in GLPI'' @ replicate 32 CHR '' '' @ ''server:''
       @ py_repr e (PList (map PStr (glpi_html_parser e (content r))))"

definition set_session_token :: "env \<Rightarrow> service \<Rightarrow> http_request list \<Rightarrow> bool io" where
  "set_session_token e s net =
     (case requests_request e (init_request s) net of
        (Inl x, net') \<Rightarrow> (Inl x, s, net')
      | (Inr r, net') \<Rightarrow>
          (case (if status_code r = 200 then
                   (case response_json r of
                      Inl x \<Rightarrow> Inl x
                    | Inr j \<Rightarrow> py_getitem j ''session_token'')
                 else
                   Inl (GlpiException
                          (''Init session to GLPI server fails: ''
                             @ py_repr e (PList (map PStr (glpi_html_parser e (content r))))))) of
             Inr tok \<Rightarrow> (Inr True, s\<lparr>session := tok\<rparr>, net')
           | Inl x \<Rightarrow> (Inl (GlpiException (init_error_message e r)), s, net')))"

definition get_session_token :: "env \<Rightarrow> service \<Rightarrow> http_request list \<Rightarrow> pyval io" where
  "get_session_token e s net =
     (if session s \<noteq> PNone then (Inr (session s), s, net)
      else
        (case set_session_token e s net of
           (Inl x, s', net') \<Rightarrow> (Inl x, s', net')
         | (Inr b, s', net') \<Rightarrow> (Inr (session s'), s', net')))"

text \<open>\<open>if session_id:\<close> is Python truthiness.\<close>

fun truthy :: "pyval \<Rightarrow> bool" where
  "truthy PNone = False"
| "truthy (PBool b) = b"
| "truthy (PInt i) = (i \<noteq> 0)"
| "truthy (PStr s) = (s \<noteq> [])"
| "truthy (PList xs) = (xs \<noteq> [])"
| "truthy (PDict d) = (d \<noteq> [])"
| "truthy (PSet xs) = (xs \<noteq> [])"

definition update_session_token :: "pyval \<Rightarrow> service \<Rightarrow> pyval \<times> service" where
  "update_session_token session_id s =
     (let s = (if truthy session_id then s\<lparr>session := session_id\<rparr> else s) in (session s, s))"

text \<open>
  \<open>request\<close>. The path is \<open>None\<close> when the caller passes an unset \<open>self.uri\<close>; then
  \<open>url.strip\<close> raises \<open>AttributeError\<close> before anything else happens. The arguments
  \<open>json\<close> and \<open>files\<close> are never handed to the HTTP library and are left out.
\<close>

definition request ::
  "env \<Rightarrow> string \<Rightarrow> string option \<Rightarrow> bool \<Rightarrow> (string \<times> pyval) list \<Rightarrow>
   (string \<times> pyval) list option \<Rightarrow> string option \<Rightarrow> service \<Rightarrow> http_request list \<Rightarrow> response io" where
  "request e meth path accept_json headers0 params0 data0 s net =
     (case path of
        None \<Rightarrow> (Inl AttributeError, s, net)
      | Some p \<Rightarrow>
          (let full_url = url s @ ''/'' @ py_strip CHR ''/'' p;
               input_headers = (if headers0 \<noteq> [] then remove_null_values headers0 else []);
               headers = [(''user-agent'', PStr (''glpi-sdk-python-'' @ version e))];
               headers = (if accept_json
                          then ci_update e ''accept'' (PStr ''application/json'') headers
                          else headers)
           in case (if session s = PNone then set_session_token e s net
                    else (Inr True, s, net)) of
                (Inl x, s', net') \<Rightarrow>
                  (if is_GlpiException x then
                     (Inl (GlpiException
                             (''Unable to get Session token. '' @ replicate 32 CHR '' ''
                                @ ''ERROR: '' @ exn_str x)), s', net')
                   else (Inl x, s', net'))
              | (Inr b, s', net') \<Rightarrow>
                  (let headers = ci_update e ''Session-Token'' (session s') headers;
                       headers = (case app_token s' of
                                    None \<Rightarrow> headers
                                  | Some a \<Rightarrow> ci_update e ''App-Token'' (PStr a) headers);
                       headers = ci_update_all e input_headers headers;
                       params = map_option (\<lambda>d. cleanup_param_values (remove_null_values d)) params0;
                       rq = \<lparr>req_method = meth, req_url = full_url, req_auth = None,
                             req_headers = headers, req_params = params, req_data = data0,
                             req_verify = sslverify s'\<rparr>
                   in case requests_request e rq net' of
                        (r, net'') \<Rightarrow> (r, s', net''))))"

definition dq :: string where
  "dq = [CHR 0x22]"

text \<open>
  \<open>get_payload\<close>: the loop over the keys of the data. \<open>data_str is not ""\<close> is false
  exactly for the empty string, which the loop holds only before its first round.
\<close>

fun get_payload_loop :: "env \<Rightarrow> (string \<times> pyval) list \<Rightarrow> string \<Rightarrow> string" where
  "get_payload_loop e [] data_str = data_str"
| "get_payload_loop e ((k, v) # kvs) data_str =
     (let data_str = (if data_str \<noteq> [] then data_str @ '','' else data_str);
          data_str =
            (case v of
               PNone \<Rightarrow> data_str @ '' '' @ dq @ k @ dq @ '': null''
             | PStr x \<Rightarrow> data_str @ '' '' @ dq @ k @ dq @ '': '' @ dq @ x @ dq
             | _ \<Rightarrow> data_str @ '' '' @ dq @ k @ dq @ '': '' @ py_str e v)
      in get_payload_loop e kvs data_str)"

definition get_payload :: "env \<Rightarrow> (string \<times> pyval) list \<Rightarrow> string" where
  "get_payload e data_json =
     py_replace CHR 0x0D []
       (py_replace CHR 0x0A [CHR 0x5C, CHR ''n'']
          (py_replace CHR 0x5C [CHR 0x5C, CHR 0x5C] (get_payload_loop e data_json [])))"

definition json_of :: "response io \<Rightarrow> pyval io" where
  "json_of x = (case x of
                  (Inl err, s, net) \<Rightarrow> (Inl err, s, net)
                | (Inr r, s, net) \<Rightarrow> (response_json r, s, net))"

text \<open>\<open>GlpiService.create\<close>. The \<open>print(payload)\<close> writes to standard output only.\<close>

definition create :: "env \<Rightarrow> (string \<times> pyval) list option \<Rightarrow> service \<Rightarrow> http_request list \<Rightarrow> pyval io" where
  "create e data_json s net =
     (case data_json of
        None \<Rightarrow> (Inr (PStr ''{ 'error_message' : 'Object not found.'}''), s, net)
      | Some d \<Rightarrow>
          (let payload = ''{'' @ dq @ ''input'' @ dq @ '': { '' @ get_payload e d @ '' }}''
           in json_of (request e ''POST'' (uri s) True [] None (Some payload) s net)))"

definition expand_payload :: "bool \<Rightarrow> (string \<times> pyval) list" where
  "expand_payload expand_dropdowns =
     (if expand_dropdowns then [(''expand_dropdowns'', PStr ''true'')] else [])"

definition get_all :: "env \<Rightarrow> bool \<Rightarrow> string \<Rightarrow> service \<Rightarrow> http_request list \<Rightarrow> pyval io" where
  "get_all e expand_dropdowns uri_query s net =
     (let payload = expand_payload expand_dropdowns
      in case uri s of
           None \<Rightarrow> (Inl TypeError, s, net)
         | Some u \<Rightarrow> json_of (request e ''GET'' (Some (u @ uri_query)) False [] (Some payload) None s net))"

definition get :: "env \<Rightarrow> pyval \<Rightarrow> bool \<Rightarrow> service \<Rightarrow> http_request list \<Rightarrow> pyval io" where
  "get e item_id expand_dropdowns s net =
     (if is_int item_id then
        (let payload = expand_payload expand_dropdowns
         in case fmt_d item_id of
              Inl x \<Rightarrow> (Inl x, s, net)
            | Inr i \<Rightarrow>
                json_of (request e ''GET'' (Some (str_opt (uri s) @ ''/'' @ i)) False []
                           (Some payload) None s net))
      else
        (Inr (PDict [(''error_message'',
                      PStr (''Unale to get '' @ str_opt (uri s) @ '' ID ['' @ py_str e item_id @ '']''))]),
         s, net))"

definition get_path :: "env \<Rightarrow> string \<Rightarrow> service \<Rightarrow> http_request list \<Rightarrow> pyval io" where
  "get_path e path s net = json_of (request e ''GET'' (Some path) False [] None None s net)"

definition search_options :: "env \<Rightarrow> string \<Rightarrow> service \<Rightarrow> http_request list \<Rightarrow> pyval io" where
  "search_options e item_name s net =
     (let new_uri = str_opt (uri s) @ ''/'' @ item_name
      in json_of (request e ''GET'' (Some new_uri) True [] None None s net))"

definition search_engine :: "env \<Rightarrow> string \<Rightarrow> service \<Rightarrow> http_request list \<Rightarrow> pyval io" where
  "search_engine e search_query s net =
     (let new_uri = str_opt (uri s) @ ''/'' @ search_query
      in json_of (request e ''GET'' (Some new_uri) True [] None None s net))"

definition update :: "env \<Rightarrow> (string \<times> pyval) list \<Rightarrow> service \<Rightarrow> http_request list \<Rightarrow> pyval io" where
  "update e d s net =
     (let payload = ''{'' @ dq @ ''input'' @ dq @ '': { '' @ get_payload e d @ '' }}''
      in case dict_get d ''id'' of
           Inl x \<Rightarrow> (Inl x, s, net)
         | Inr v \<Rightarrow>
             (case fmt_d v of
                Inl x \<Rightarrow> (Inl x, s, net)
              | Inr i \<Rightarrow>
                  json_of (request e ''PUT'' (Some (str_opt (uri s) @ ''/'' @ i)) True [] None
                             (Some payload) s net)))"

definition delete :: "env \<Rightarrow> pyval \<Rightarrow> bool \<Rightarrow> service \<Rightarrow> http_request list \<Rightarrow> pyval io" where
  "delete e item_id force_purge s net =
     (if \<not> is_int item_id then
        (Inr (PDict [(''message_error'', PStr ''Please define item_id to be deleted.'')]), s, net)
      else
        (case fmt_d item_id of
           Inl x \<Rightarrow> (Inl x, s, net)
         | Inr i \<Rightarrow>
             (let payload =
                    (if force_purge
                     then ''{'' @ dq @ ''input'' @ dq @ '': { '' @ dq @ ''id'' @ dq @ '': '' @ i
                            @ '' } '' @ dq @ ''force_purge'' @ dq @ '': true}''
                     else ''{'' @ dq @ ''input'' @ dq @ '': { '' @ dq @ ''id'' @ dq @ '': '' @ i @ '' }}'')
              in json_of (request e ''DELETE'' (uri s) False [] None (Some payload) s net))))"

section \<open>Iteration, membership and subscripting of dynamic values\<close>

text \<open>\<open>for x in v\<close>: the elements that the loop visits, or \<open>TypeError\<close>.\<close>

fun py_iter :: "pyval \<Rightarrow> exn + pyval list" where
  "py_iter (PList xs) = Inr xs"
| "py_iter (PSet xs) = Inr xs"
| "py_iter (PDict d) = Inr (map (\<lambda>(k, v). PStr k) d)"
| "py_iter (PStr s) = Inr (map (\<lambda>c. PStr [c]) s)"
| "py_iter v = Inl TypeError"

text \<open>\<open>'key' in v\<close> for a string key.\<close>

fun py_in :: "string \<Rightarrow> pyval \<Rightarrow> exn + bool" where
  "py_in k (PDict d) = Inr (dict_contains d k)"
| "py_in k (PList xs) = Inr (PStr k \<in> set xs)"
| "py_in k (PSet xs) = Inr (PStr k \<in> set xs)"
| "py_in k (PStr s) = Inr (str_contains k s)"
| "py_in k v = Inl TypeError"

text \<open>
  \<open>xs[i]\<close> on a list or a string: positions from the front are \<open>0\<close> to \<open>len - 1\<close>,
  positions from the back are \<open>-1\<close> down to \<open>-len\<close>, anything else raises.
\<close>

definition seq_index :: "'a list \<Rightarrow> int \<Rightarrow> exn + 'a" where
  "seq_index xs i =
     (if 0 \<le> i \<and> i < int (length xs) then Inr (xs ! nat i)
      else if i < 0 \<and> - i \<le> int (length xs) then Inr (xs ! nat (int (length xs) + i))
      else Inl IndexError)"

text \<open>
  \<open>v[k]\<close> for a dynamic key: a dict has string keys only, so any other hashable key is
  missing and a container key is unhashable; lists and strings take integer indices.
\<close>

fun py_subscript :: "pyval \<Rightarrow> pyval \<Rightarrow> exn + pyval" where
  "py_subscript (PDict d) (PStr k) = dict_get d k"
| "py_subscript (PDict d) (PList xs) = Inl TypeError"
| "py_subscript (PDict d) (PDict d') = Inl TypeError"
| "py_subscript (PDict d) (PSet xs) = Inl TypeError"
| "py_subscript (PDict d) k = Inl KeyError"
| "py_subscript (PList xs) (PInt i) = seq_index xs i"
| "py_subscript (PList xs) (PBool b) = seq_index xs (if b then 1 else 0)"
| "py_subscript (PStr s) (PInt i) = map_sum id (\<lambda>c. PStr [c]) (seq_index s i)"
| "py_subscript (PStr s) (PBool b) = map_sum id (\<lambda>c. PStr [c]) (seq_index s (if b then 1 else 0))"
| "py_subscript v k = Inl TypeError"

text \<open>\<open>v.lower()\<close>: only strings have the method.\<close>

fun lower_of :: "env \<Rightarrow> pyval \<Rightarrow> exn + string" where
  "lower_of e (PStr s) = Inr (py_lower e s)"
| "lower_of e v = Inl AttributeError"

section \<open>The resource router: class \<open>GLPI\<close>\<close>

record glpi =
  r_url :: string
  r_app_token :: "string option"
  auth_token :: "string option"
  r_sslverify :: bool
  r_writable :: bool
  item_uri :: "string option"
  item_map :: "(string \<times> string) list"
  api_rest :: "service option"
  api_session :: pyval

type_synonym 'a rio = "(exn + 'a) \<times> glpi \<times> http_request list"

definition default_item_map :: "(string \<times> string) list" where
  "default_item_map =
     [(''ticket'', ''/Ticket''),
      (''knowbase'', ''/knowbaseitem''),
      (''listSearchOptions'', ''/listSearchOptions''),
      (''search'', ''/search''),
      (''user'', ''user''),
      (''getFullSession'', ''getFullSession''),
      (''getActiveProfile'', ''getActiveProfile''),
      (''getMyProfiles'', ''getMyProfiles''),
      (''location'', ''location'')]"

definition set_item_map :: "(string \<times> string) list \<Rightarrow> glpi \<Rightarrow> glpi" where
  "set_item_map m g = g\<lparr>item_map := m\<rparr>"

definition GLPI_init ::
  "string \<Rightarrow> string option \<Rightarrow> string option \<Rightarrow> (string \<times> string) list option \<Rightarrow> bool \<Rightarrow> bool \<Rightarrow> glpi" where
  "GLPI_init url0 app_token0 auth_token0 item_map0 sslverify0 writable0 =
     (let g = \<lparr>r_url = url0, r_app_token = app_token0, auth_token = auth_token0,
                r_sslverify = sslverify0, r_writable = writable0, item_uri = None,
                item_map = default_item_map, api_rest = None, api_session = PNone\<rparr>
      in case item_map0 of None \<Rightarrow> g | Some m \<Rightarrow> set_item_map m g)"

definition help_item :: "glpi \<Rightarrow> pyval" where
  "help_item g = PDict [(''available_items'', PDict (map (\<lambda>(k, v). (k, PStr v)) (item_map g)))]"

definition set_item :: "string \<Rightarrow> glpi \<Rightarrow> (exn + unit) \<times> glpi" where
  "set_item item_name g =
     (case dict_get (item_map g) item_name of
        Inl x \<Rightarrow> (Inl (PyException (''Key ['' @ item_name @ ''] not found in Item MAP'')), g)
      | Inr p \<Rightarrow> (Inr (), g\<lparr>item_uri := Some p\<rparr>))"

definition set_api_uri :: "glpi \<Rightarrow> (exn + unit) \<times> glpi" where
  "set_api_uri g =
     (case api_rest g of
        None \<Rightarrow> (Inl AttributeError, g)
      | Some s \<Rightarrow> (Inr (), g\<lparr>api_rest := Some (set_uri (item_uri g) s)\<rparr>))"

text \<open>
  \<open>update_uri\<close> (the spec's \<open>resolveUri\<close>). The membership test is on the name as given;
  in the branch for a path-like name the key that is written is the segment after the
  first separator.
\<close>

definition register_item :: "string \<Rightarrow> glpi \<Rightarrow> (exn + string) \<times> glpi" where
  "register_item item_name g =
     (if \<not> dict_contains (item_map g) item_name then
        (if startswith_slash item_name then
           (case py_index (py_split CHR ''/'' item_name) 1 of
              Inl x \<Rightarrow> (Inl x, g)
            | Inr item_name_real \<Rightarrow>
                (Inr item_name_real,
                 g\<lparr>item_map := dict_update item_name_real item_name (item_map g)\<rparr>))
         else
           (let item_path = ''/'' @ item_name
            in (Inr item_name, g\<lparr>item_map := dict_update item_name item_path (item_map g)\<rparr>)))
      else (Inr item_name, g))"

definition update_uri :: "string \<Rightarrow> glpi \<Rightarrow> (exn + unit) \<times> glpi" where
  "update_uri item_name g =
     (case register_item item_name g of
        (Inl x, g1) \<Rightarrow> (Inl x, g1)
      | (Inr n, g1) \<Rightarrow>
          (case set_item n g1 of
             (Inl x, g2) \<Rightarrow> (Inl x, g2)
           | (Inr u, g2) \<Rightarrow> set_api_uri g2))"

text \<open>
  \<open>init_api\<close>. The new service object is bound to \<open>api_rest\<close> as soon as its constructor
  returns, so it stays bound when \<open>get_session_token\<close> raises.
\<close>

definition init_api :: "env \<Rightarrow> glpi \<Rightarrow> http_request list \<Rightarrow> pyval rio" where
  "init_api e g net =
     (case GlpiService_init e (r_url g) (r_app_token g) None None None (auth_token g)
             False None (r_sslverify g) (r_writable g) of
        Inl x \<Rightarrow> (Inl x, g, net)
      | Inr s \<Rightarrow>
          (case get_session_token e s net of
             (Inl x, s', net') \<Rightarrow> (Inl x, g\<lparr>api_rest := Some s'\<rparr>, net')
           | (Inr tok, s', net') \<Rightarrow>
               (Inr (if tok \<noteq> PNone then PDict [(''session_token'', tok)]
                     else PDict [(''message_error'',
                                  PStr ''Unable to InitSession in GLPI Server.'')]),
                g\<lparr>api_rest := Some s', api_session := tok\<rparr>, net')))"

definition api_has_session :: "glpi \<Rightarrow> bool" where
  "api_has_session g = (if api_session g = PNone then False else True)"

text \<open>
  The two lines that open every operation of the router:
  \<open>if not self.api_has_session(): self.init_api()\<close>. The value of \<open>init_api\<close> is dropped.
\<close>

definition ensure_session :: "env \<Rightarrow> glpi \<Rightarrow> http_request list \<Rightarrow> unit rio" where
  "ensure_session e g net =
     (if \<not> api_has_session g then
        (case init_api e g net of
           (Inl x, g', net') \<Rightarrow> (Inl x, g', net')
         | (Inr v, g', net') \<Rightarrow> (Inr (), g', net'))
      else (Inr (), g, net))"

text \<open>A method call on \<open>self.api_rest\<close>; the object it mutates stays the router's.\<close>

definition call_api :: "(service \<Rightarrow> http_request list \<Rightarrow> 'a io) \<Rightarrow> glpi \<Rightarrow> http_request list \<Rightarrow> 'a rio" where
  "call_api f g net =
     (case api_rest g of
        None \<Rightarrow> (Inl AttributeError, g, net)
      | Some s \<Rightarrow> (case f s net of (r, s', net') \<Rightarrow> (r, g\<lparr>api_rest := Some s'\<rparr>, net')))"

text \<open>
  The handler that closes every operation of the router:
  \<open>except GlpiException as e: return {'{}'.format(e)}\<close>.
  The braces hold one expression and no key, which in Python is a set.
\<close>

definition except_GlpiException :: "pyval rio \<Rightarrow> pyval rio" where
  "except_GlpiException x =
     (case x of
        (Inl err, g, net) \<Rightarrow>
          (if is_GlpiException err then (Inr (PSet [PStr (exn_str err)]), g, net)
           else (Inl err, g, net))
      | (Inr v, g, net) \<Rightarrow> (Inr v, g, net))"

text \<open>The common shape: ensure the session, resolve the name, call the service.\<close>

definition routed ::
  "env \<Rightarrow> string \<Rightarrow> (service \<Rightarrow> http_request list \<Rightarrow> pyval io) \<Rightarrow> glpi \<Rightarrow> http_request list \<Rightarrow> pyval rio" where
  "routed e item_name f g net =
     (case ensure_session e g net of
        (Inl x, g1, net1) \<Rightarrow> (Inl x, g1, net1)
      | (Inr u, g1, net1) \<Rightarrow>
          (case update_uri item_name g1 of
             (Inl x, g2) \<Rightarrow> (Inl x, g2, net1)
           | (Inr u, g2) \<Rightarrow> call_api f g2 net1))"

definition GLPI_create ::
  "env \<Rightarrow> string \<Rightarrow> (string \<times> pyval) list option \<Rightarrow> glpi \<Rightarrow> http_request list \<Rightarrow> pyval rio" where
  "GLPI_create e item_name item_data g net =
     except_GlpiException (routed e item_name (create e item_data) g net)"

text \<open>
  The loop of \<open>GLPI.get_all\<close> over the criteria. The separator \<open>uri\<close> is computed in
  every round and is not part of what is appended.
\<close>

fun get_all_query :: "env \<Rightarrow> pyval list \<Rightarrow> nat \<Rightarrow> string \<Rightarrow> exn + string" where
  "get_all_query e [] s_index uri_query = Inr uri_query"
| "get_all_query e (c # cs) s_index uri_query =
     (let uri = (if s_index = 0 then [] else ''&'')
      in case py_getitem c ''field'' of
           Inl x \<Rightarrow> Inl x
         | Inr f \<Rightarrow>
             (case py_getitem c ''value'' of
                Inl x \<Rightarrow> Inl x
              | Inr v \<Rightarrow>
                  get_all_query e cs (s_index + 1)
                    (uri_query @ ''searchText['' @ py_str e f @ '']='' @ py_str e v)))"

definition GLPI_get_all ::
  "env \<Rightarrow> string \<Rightarrow> bool \<Rightarrow> pyval \<Rightarrow> glpi \<Rightarrow> http_request list \<Rightarrow> pyval rio" where
  "GLPI_get_all e item_name expand_dropdowns searchText g net =
     (case (if searchText \<noteq> PNone then
              (case py_getitem searchText ''criteria'' of
                 Inl x \<Rightarrow> Inl x
               | Inr cl \<Rightarrow>
                   (case py_iter cl of
                      Inl x \<Rightarrow> Inl x
                    | Inr cs \<Rightarrow> get_all_query e cs 0 ''?''))
            else Inr ''?range=0-5000'') of
        Inl x \<Rightarrow> (Inl x, g, net)
      | Inr uri_query \<Rightarrow>
          except_GlpiException
            (routed e item_name (get_all e expand_dropdowns uri_query) g net))"

definition GLPI_get ::
  "env \<Rightarrow> string \<Rightarrow> pyval \<Rightarrow> bool \<Rightarrow> glpi \<Rightarrow> http_request list \<Rightarrow> pyval rio" where
  "GLPI_get e item_name item_id expand_dropdowns g net =
     except_GlpiException
       (routed e item_name
          (if item_id = PNone then get_path e item_name else get e item_id expand_dropdowns)
          g net)"

definition GLPI_search_options ::
  "env \<Rightarrow> string \<Rightarrow> glpi \<Rightarrow> http_request list \<Rightarrow> pyval rio" where
  "GLPI_search_options e item_name g net =
     except_GlpiException (routed e ''listSearchOptions'' (search_options e item_name) g net)"

text \<open>
  \<open>search_criteria\<close>. The test of one criterion \<open>c\<close> on one record \<open>d\<close> is
  \<open>c['value'].lower() in d[c['field']].lower()\<close>, evaluated from left to right; each
  subscript and each \<open>lower\<close> can raise. The flag \<open>find\<close> of the source is \<open>found\<close> here.
\<close>

definition criterion_test :: "env \<Rightarrow> pyval \<Rightarrow> pyval \<Rightarrow> exn + bool" where
  "criterion_test e d c =
     (case py_getitem c ''value'' of
        Inl x \<Rightarrow> Inl x
      | Inr v \<Rightarrow>
          (case lower_of e v of
             Inl x \<Rightarrow> Inl x
           | Inr lv \<Rightarrow>
               (case py_getitem c ''field'' of
                  Inl x \<Rightarrow> Inl x
                | Inr f \<Rightarrow>
                    (case py_subscript d f of
                       Inl x \<Rightarrow> Inl x
                     | Inr fv \<Rightarrow>
                         (case lower_of e fv of
                            Inl x \<Rightarrow> Inl x
                          | Inr lf \<Rightarrow> Inr (str_contains lv lf))))))"

fun criteria_loop :: "env \<Rightarrow> pyval \<Rightarrow> pyval list \<Rightarrow> bool \<Rightarrow> exn + bool" where
  "criteria_loop e d [] found = Inr found"
| "criteria_loop e d (c # cs) found =
     (case criterion_test e d c of
        Inl x \<Rightarrow> Inl x
      | Inr b \<Rightarrow> criteria_loop e d cs (if b then True else found))"

fun data_loop :: "env \<Rightarrow> pyval list \<Rightarrow> pyval \<Rightarrow> pyval list \<Rightarrow> exn + pyval list" where
  "data_loop e [] criteria result = Inr result"
| "data_loop e (d # ds) criteria result =
     (case py_iter criteria of
        Inl x \<Rightarrow> Inl x
      | Inr cs \<Rightarrow>
          (case criteria_loop e d cs False of
             Inl x \<Rightarrow> Inl x
           | Inr found \<Rightarrow> data_loop e ds criteria (if found then result @ [d] else result)))"

definition search_criteria :: "env \<Rightarrow> pyval \<Rightarrow> pyval \<Rightarrow> exn + pyval" where
  "search_criteria e data criteria =
     (case py_iter data of
        Inl x \<Rightarrow> Inl x
      | Inr ds \<Rightarrow> map_sum id PList (data_loop e ds criteria []))"

definition search_metacriteria :: "pyval \<Rightarrow> pyval" where
  "search_metacriteria metacriteria = PDict [(''message_info'', PStr ''Not implemented yet'')]"

text \<open>\<open>GLPI.search\<close> has no handler of its own; it relies on that of \<open>get_all\<close>.\<close>

definition GLPI_search ::
  "env \<Rightarrow> string \<Rightarrow> pyval \<Rightarrow> bool \<Rightarrow> glpi \<Rightarrow> http_request list \<Rightarrow> pyval rio" where
  "GLPI_search e item_name criteria expand_dropdowns g net =
     (case py_in ''criteria'' criteria of
        Inl x \<Rightarrow> (Inl x, g, net)
      | Inr True \<Rightarrow>
          (case GLPI_get_all e item_name expand_dropdowns PNone g net of
             (Inl x, g', net') \<Rightarrow> (Inl x, g', net')
           | (Inr data, g', net') \<Rightarrow>
               (case py_getitem criteria ''criteria'' of
                  Inl x \<Rightarrow> (Inl x, g', net')
                | Inr cl \<Rightarrow> (search_criteria e data cl, g', net')))
      | Inr False \<Rightarrow>
          (case py_in ''metacriteria'' criteria of
             Inl x \<Rightarrow> (Inl x, g, net)
           | Inr True \<Rightarrow>
               (case py_getitem criteria ''metacriteria'' of
                  Inl x \<Rightarrow> (Inl x, g, net)
                | Inr m \<Rightarrow> (Inr (search_metacriteria m), g, net))
           | Inr False \<Rightarrow>
               (Inr (PDict [(''message_error'', PStr ''Unable to find a valid criteria.'')]),
                g, net)))"

definition field_map :: "(string \<times> int) list" where
  "field_map =
     [(''name'', 1),
      (''id'', 2),
      (''location'', 3),
      (''type'', 4),
      (''serialnumber'', 5),
      (''body'', 6),
      (''processor'', 17),
      (''lastupdate'', 19),
      (''manufacturer'', 23),
      (''status'', 31),
      (''model'', 40),
      (''tags'', 10500),
      (''operatingsystem'', 45)]"

text \<open>
  \<open>field_map[k]\<close> for a dynamic key: a string is looked up, a container is unhashable,
  anything else is not a key of the table.
\<close>

fun field_code :: "pyval \<Rightarrow> exn + int" where
  "field_code (PStr f) = dict_get field_map f"
| "field_code (PList xs) = Inl TypeError"
| "field_code (PDict d) = Inl TypeError"
| "field_code (PSet xs) = Inl TypeError"
| "field_code v = Inl KeyError"

text \<open>One round of the loop of \<open>GLPI.search_engine\<close>: the text appended for criterion \<open>c\<close>.\<close>

definition search_engine_part :: "env \<Rightarrow> nat \<Rightarrow> pyval \<Rightarrow> exn + string" where
  "search_engine_part e s_index c =
     (let uri = (if s_index = 0 then [] else ''&'');
          i = string_of_nat s_index
      in case py_getitem c ''field'' of
           Inl x \<Rightarrow> Inl x
         | Inr f \<Rightarrow>
             (case field_code f of
                Inl x \<Rightarrow> Inl x
              | Inr code \<Rightarrow>
                  (let uri = uri @ ''criteria['' @ i @ ''][field]='' @ string_of_int code @ ''&''
                   in case py_getitem c ''value'' of
                        Inl x \<Rightarrow> Inl x
                      | Inr v \<Rightarrow>
                          (let uri = (if v = PNone then uri @ ''criteria['' @ i @ ''][value]=&''
                                      else uri @ ''criteria['' @ i @ ''][value]='' @ py_str e v @ ''&'')
                           in case py_getitem c ''searchtype'' of
                                Inl x \<Rightarrow> Inl x
                              | Inr t \<Rightarrow>
                                  (let uri = uri @ ''criteria['' @ i @ ''][searchtype]='' @ py_str e t @ ''&''
                                   in case py_getitem c ''link'' of
                                        Inl x \<Rightarrow> Inl x
                                      | Inr l \<Rightarrow>
                                          Inr (uri @ ''criteria['' @ i @ ''][link]='' @ py_str e l))))))"

fun search_engine_query :: "env \<Rightarrow> pyval list \<Rightarrow> nat \<Rightarrow> string \<Rightarrow> exn + string" where
  "search_engine_query e [] s_index uri_query = Inr uri_query"
| "search_engine_query e (c # cs) s_index uri_query =
     (case search_engine_part e s_index c of
        Inl x \<Rightarrow> Inl x
      | Inr part \<Rightarrow> search_engine_query e cs (s_index + 1) (uri_query @ part))"

text \<open>
  \<open>GLPI.search_engine\<close>: the query is built before the \<open>try\<close>; the call goes through
  \<open>search_options\<close> of the service on the \<open>search\<close> route.
\<close>

definition GLPI_search_engine ::
  "env \<Rightarrow> string \<Rightarrow> pyval \<Rightarrow> glpi \<Rightarrow> http_request list \<Rightarrow> pyval rio" where
  "GLPI_search_engine e item_name criteria g net =
     (case (case py_getitem criteria ''criteria'' of
              Inl x \<Rightarrow> Inl x
            | Inr cl \<Rightarrow>
                (case py_iter cl of
                   Inl x \<Rightarrow> Inl x
                 | Inr cs \<Rightarrow> search_engine_query e cs 0 (item_name @ ''?''))) of
        Inl x \<Rightarrow> (Inl x, g, net)
      | Inr uri_query \<Rightarrow>
          except_GlpiException
            (routed e ''search'' (search_options e (uri_query @ ''&range=0-5000'')) g net))"

definition GLPI_update ::
  "env \<Rightarrow> string \<Rightarrow> (string \<times> pyval) list \<Rightarrow> glpi \<Rightarrow> http_request list \<Rightarrow> pyval rio" where
  "GLPI_update e item_name d g net =
     except_GlpiException (routed e item_name (update e d) g net)"

definition GLPI_delete ::
  "env \<Rightarrow> string \<Rightarrow> pyval \<Rightarrow> bool \<Rightarrow> glpi \<Rightarrow> http_request list \<Rightarrow> pyval rio" where
  "GLPI_delete e item_name item_id force_purge g net =
     except_GlpiException (routed e item_name (delete e item_id force_purge) g net)"

section \<open>A concrete client, and two servers\<close>

text \<open>
  The closed statements below run the code against these: an environment around a given
  server, a server that refuses every request, a server that grants a session and answers
  every other request with a fixed JSON body, and a router and a service as their
  constructors leave them.
\<close>

definition demo_env :: "(http_request list \<Rightarrow> http_request \<Rightarrow> exn + response) \<Rightarrow> env" where
  "demo_env srv =
     \<lparr>server = srv, html_data = (\<lambda>c. [c]), py_repr = (\<lambda>v. ''[...]''),
      str_lower = ascii_lower, version = ''0.3.0'', getenv_vcap = None, json_loads = (\<lambda>s. Inl ValueError)\<rparr>"

definition server_down :: "http_request list \<Rightarrow> http_request \<Rightarrow> exn + response" where
  "server_down net rq = Inr \<lparr>status_code = 401, content = ''denied'', json_body = None\<rparr>"

definition server_up :: "pyval \<Rightarrow> http_request list \<Rightarrow> http_request \<Rightarrow> exn + response" where
  "server_up body net rq =
     (if req_url rq = ''http://glpi/apirest.php/initSession''
      then Inr \<lparr>status_code = 200, content = [],
                json_body = Some (PDict [(''session_token'', PStr ''s3cr3t'')])\<rparr>
      else Inr \<lparr>status_code = 200, content = [], json_body = Some body\<rparr>)"

definition demo_glpi :: glpi where
  "demo_glpi = GLPI_init ''http://glpi/apirest.php'' (Some ''app'') (Some ''user'') None True False"

definition demo_service :: service where
  "demo_service =
     \<lparr>url = ''http://glpi/apirest.php'', app_token = Some ''app'', uri = None,
      username = None, password = None, token_auth = Some ''user'',
      sslverify = True, writable = False, session = PNone\<rparr>"

section \<open>Well-formed search criteria\<close>

text \<open>
  A criterion is a dict whose \<open>field\<close> entry is a string; \<open>criterion_field\<close> reads that
  field name, and is \<open>None\<close> for anything else.
\<close>

definition criterion_field :: "pyval \<Rightarrow> string option" where
  "criterion_field c =
     (case c of
        PDict cd \<Rightarrow> (case map_of cd ''field'' of Some (PStr f) \<Rightarrow> Some f | _ \<Rightarrow> None)
      | _ \<Rightarrow> None)"

definition demo_criteria :: pyval where
  "demo_criteria =
     PDict [(''criteria'',
             PList [PDict [(''field'', PStr ''name''), (''value'', PStr ''srv''),
                           (''searchtype'', PStr ''contains''), (''link'', PStr ''AND'')],
                    PDict [(''field'', PStr ''colour''), (''value'', PStr ''red''),
                           (''searchtype'', PStr ''contains''), (''link'', PStr ''AND'')]])]"






text \<open>
  A search text of two criteria, and the message of the session error that the refusing
  server causes.
\<close>

definition demo_search_text :: pyval where
  "demo_search_text =
     PDict [(''criteria'',
             PList [PDict [(''field'', PStr ''name''), (''value'', PStr ''a'')],
                    PDict [(''field'', PStr ''id''), (''value'', PStr ''b'')]])]"

definition demo_session_error :: string where
  "demo_session_error =
     ''ERROR when try to init session in GLPI'' @ replicate 32 CHR '' '' @ ''server:[...]''"

section \<open>The session token\<close>

lemma set_session_token_net:
  "set_session_token e s net = (r, s1, net1) \<Longrightarrow> net1 = net @ [init_request s]"
  by (auto simp: set_session_token_def requests_request_def split: sum.splits if_splits)

lemma set_session_token_ok:
  "set_session_token e s net = (Inr b, s1, net1) \<Longrightarrow> \<exists>tok. s1 = s\<lparr>session := tok\<rparr>"
  by (auto simp: set_session_token_def requests_request_def split: sum.splits if_splits)

lemma get_session_token_stored:
  "session s \<noteq> PNone \<Longrightarrow> get_session_token e s net = (Inr (session s), s, net)"
  by (simp add: get_session_token_def)

lemma get_session_token_repeat:
  "session s \<noteq> PNone \<Longrightarrow>
   ((\<lambda>(r, s', n'). get_session_token e s' n') ^^ Suc k) (x :: exn + pyval, s, net)
     = (Inr (session s), s, net)"
  by (induction k) (simp_all add: get_session_token_stored)

lemma demo_init:
  "set_session_token (demo_env (server_up PNone)) demo_service []
     = (Inr True, demo_service\<lparr>session := PStr ''s3cr3t''\<rparr>, [init_request demo_service])"
  by (simp add: set_session_token_def requests_request_def demo_env_def server_up_def
        init_request_def demo_service_def response_json_def dict_get_def)

text \<open>
  Claim C2. Once a token is stored in the service, one call of \<open>get_session_token\<close>
  after another (\<open>Suc k\<close> of them, whatever came before) returns that token and leaves
  the service and the list of issued requests as they were. With no token stored,
  \<open>get_session_token\<close> is \<open>set_session_token\<close> followed by reading the stored token, an
  exception of \<open>set_session_token\<close> passing through; and a \<open>set_session_token\<close> that
  returns has issued exactly one request, the \<open>initSession\<close> one, and changed nothing of
  the service but the token.
\<close>

theorem get_session_token_reuses_or_initialises:
  "(session s \<noteq> PNone \<longrightarrow>
      (\<forall>k (x :: exn + pyval).
          ((\<lambda>(r, s', n'). get_session_token e s' n') ^^ Suc k) (x, s, net)
            = (Inr (session s), s, net)))
   \<and> (session s = PNone \<longrightarrow>
        get_session_token e s net =
          (case set_session_token e s net of
             (r, s1, net1) \<Rightarrow> (map_sum id (\<lambda>b. session s1) r, s1, net1)))
   \<and> (\<forall>b s1 net1. set_session_token e s net = (Inr b, s1, net1) \<longrightarrow>
        net1 = net @ [init_request s] \<and> (\<exists>tok. s1 = s\<lparr>session := tok\<rparr>))"
proof (intro conjI impI allI)
  fix k and x :: "exn + pyval"
  assume "session s \<noteq> PNone"
  then show "((\<lambda>(r, s', n'). get_session_token e s' n') ^^ Suc k) (x, s, net)
               = (Inr (session s), s, net)"
    by (rule get_session_token_repeat)
next
  assume "session s = PNone"
  then show "get_session_token e s net =
          (case set_session_token e s net of
             (r, s1, net1) \<Rightarrow> (map_sum id (\<lambda>b. session s1) r, s1, net1))"
    by (auto simp: get_session_token_def split: prod.splits sum.splits)
next
  fix b s1 net1
  assume "set_session_token e s net = (Inr b, s1, net1)"
  then show "net1 = net @ [init_request s]"
    by (rule set_session_token_net)
next
  fix b s1 net1
  assume "set_session_token e s net = (Inr b, s1, net1)"
  then show "\<exists>tok. s1 = s\<lparr>session := tok\<rparr>"
    by (rule set_session_token_ok)
qed

theorem get_session_token_reuses_or_initialises_witness:
  "session (demo_service\<lparr>session := PStr ''s3cr3t''\<rparr>) \<noteq> PNone
   \<and> get_session_token (demo_env server_down) (demo_service\<lparr>session := PStr ''s3cr3t''\<rparr>) []
       = (Inr (PStr ''s3cr3t''), demo_service\<lparr>session := PStr ''s3cr3t''\<rparr>, [])
   \<and> session demo_service = PNone
   \<and> set_session_token (demo_env (server_up PNone)) demo_service []
       = (Inr True, demo_service\<lparr>session := PStr ''s3cr3t''\<rparr>, [init_request demo_service])
   \<and> get_session_token (demo_env (server_up PNone)) demo_service []
       = (Inr (PStr ''s3cr3t''), demo_service\<lparr>session := PStr ''s3cr3t''\<rparr>,
          [init_request demo_service])"
proof -
  have a: "session (demo_service\<lparr>session := PStr ''s3cr3t''\<rparr>) \<noteq> PNone"
    by simp
  have b: "session demo_service = PNone"
    by (simp add: demo_service_def)
  have c: "set_session_token (demo_env (server_up PNone)) demo_service []
       = (Inr True, demo_service\<lparr>session := PStr ''s3cr3t''\<rparr>, [init_request demo_service])"
    by (rule demo_init)
  from get_session_token_reuses_or_initialises
         [of "demo_service\<lparr>session := PStr ''s3cr3t''\<rparr>" "demo_env server_down" "[]"] a
  have "((\<lambda>(r, s', n'). get_session_token (demo_env server_down) s' n') ^^ Suc 0)
          (Inl KeyError :: exn + pyval, demo_service\<lparr>session := PStr ''s3cr3t''\<rparr>, [])
        = (Inr (session (demo_service\<lparr>session := PStr ''s3cr3t''\<rparr>)),
           demo_service\<lparr>session := PStr ''s3cr3t''\<rparr>, [])"
    by blast
  then have d: "get_session_token (demo_env server_down)
                  (demo_service\<lparr>session := PStr ''s3cr3t''\<rparr>) []
       = (Inr (PStr ''s3cr3t''), demo_service\<lparr>session := PStr ''s3cr3t''\<rparr>, [])"
    by simp
  from get_session_token_reuses_or_initialises
         [of demo_service "demo_env (server_up PNone)" "[]"] b c
  have e: "get_session_token (demo_env (server_up PNone)) demo_service []
       = (Inr (PStr ''s3cr3t''), demo_service\<lparr>session := PStr ''s3cr3t''\<rparr>,
          [init_request demo_service])"
    by simp
  from a b c d e show ?thesis by blast
qed

section \<open>Construction of the transport layer\<close>

text \<open>
  Claim C8. A constructor call that passes an auth token that is not \<open>None\<close> together
  with a username or a password that is not \<open>None\<close> raises \<open>GlpiInvalidArgument\<close>, the
  configuration error of the \<open>GlpiException\<close> family, whatever the other arguments are.
  The constructor returns no service then, and it has no access to the network: no session
  exists.
\<close>

theorem GlpiService_init_rejects_token_with_password:
  assumes "token_auth0 \<noteq> None" and "username0 \<noteq> None \<or> password0 \<noteq> None"
  shows "GlpiService_init e u app uri0 username0 password0 token_auth0 vc vn ssl wr
           = Inl (GlpiInvalidArgument
                    ''Cannot set token_auth and username and password together'')
         \<and> is_GlpiException (GlpiInvalidArgument
                    ''Cannot set token_auth and username and password together'')"
  using assms by (simp add: GlpiService_init_def)

theorem GlpiService_init_rejects_token_with_password_witness:
  "GlpiService_init (demo_env server_down) ''http://glpi/apirest.php'' (Some ''app'') None
         (Some ''bob'') None (Some ''tok'') False None True False
       = Inl (GlpiInvalidArgument ''Cannot set token_auth and username and password together'')"
  using GlpiService_init_rejects_token_with_password
          [of "Some ''tok''" "Some ''bob''" None "demo_env server_down"
              "''http://glpi/apirest.php''" "Some ''app''" None False None True False]
  by simp

section \<open>Creating without data\<close>

text \<open>
  Claim C9. \<open>create\<close> of the transport layer, called with no data, returns the string
  \<open>{ 'error_message' : 'Object not found.'}\<close>: a string and no dict. The service and the
  list of issued requests are as before, so nothing was sent.
\<close>

theorem create_without_data_returns_string:
  "create e None s net = (Inr (PStr ''{ 'error_message' : 'Object not found.'}''), s, net)
   \<and> (\<forall>d. fst (create e None s net) \<noteq> Inr (PDict d))"
  by (simp add: create_def)

section \<open>Resolving a resource name\<close>

lemma map_of_dict_update: "map_of (dict_update k v d) = (map_of d)(k \<mapsto> v)"
  by (induction d) (auto simp: fun_eq_iff)

lemma dict_update_absent: "map_of d k = None \<Longrightarrow> dict_update k v d = d @ [(k, v)]"
  by (induction d) (auto split: if_splits)

lemma py_split_slash_second:
  "py_index (py_split CHR ''/'' (CHR ''/'' # cs)) (Suc 0) = Inr (takeWhile (\<lambda>c. c \<noteq> CHR ''/'') cs)"
proof -
  have "\<exists>ws. py_split CHR ''/'' cs = takeWhile (\<lambda>c. c \<noteq> CHR ''/'') cs # ws"
    by (induction cs) (auto split: list.splits)
  then show ?thesis by (auto simp: py_index_def)
qed

lemma update_uri_present:
  assumes "map_of (item_map g) n = Some p" and "api_rest g = Some s"
  shows "update_uri n g = (Inr (), g\<lparr>item_uri := Some p, api_rest := Some (s\<lparr>uri := Some p\<rparr>)\<rparr>)"
  using assms
  by (simp add: update_uri_def register_item_def dict_contains_def set_item_def dict_get_def
        set_api_uri_def set_uri_def)

lemma update_uri_plain:
  assumes "map_of (item_map g) n = None" and "\<not> startswith_slash n" and "api_rest g = Some s"
  shows "update_uri n g =
           (Inr (), g\<lparr>item_map := item_map g @ [(n, ''/'' @ n)], item_uri := Some (''/'' @ n),
                      api_rest := Some (s\<lparr>uri := Some (''/'' @ n)\<rparr>)\<rparr>)"
  using assms
  by (simp add: update_uri_def register_item_def dict_contains_def set_item_def dict_get_def
        set_api_uri_def set_uri_def dict_update_absent map_add_def)

lemma update_uri_path:
  assumes "map_of (item_map g) (CHR ''/'' # cs) = None" and "api_rest g = Some s"
  shows "update_uri (CHR ''/'' # cs) g =
           (Inr (), g\<lparr>item_map := dict_update (takeWhile (\<lambda>c. c \<noteq> CHR ''/'') cs) (CHR ''/'' # cs) (item_map g),
                      item_uri := Some (CHR ''/'' # cs),
                      api_rest := Some (s\<lparr>uri := Some (CHR ''/'' # cs)\<rparr>)\<rparr>)"
  using assms
  by (simp add: update_uri_def register_item_def dict_contains_def set_item_def dict_get_def
        set_api_uri_def set_uri_def map_of_dict_update py_split_slash_second startswith_slash_def
      del: py_split.simps)

lemma register_item_keeps_keys:
  "register_item n g = (r, g') \<Longrightarrow> map_of (item_map g) k \<noteq> None \<Longrightarrow> map_of (item_map g') k \<noteq> None"
  by (auto simp: register_item_def map_of_dict_update split: if_splits sum.splits)

lemma update_uri_item_map:
  "update_uri n g = (r, g') \<Longrightarrow> item_map g' = item_map (snd (register_item n g))"
  by (auto simp: update_uri_def set_item_def set_api_uri_def split: prod.splits sum.splits option.splits)

lemma update_uri_keeps_keys:
  "update_uri n g = (r, g') \<Longrightarrow> map_of (item_map g) k \<noteq> None \<Longrightarrow> map_of (item_map g') k \<noteq> None"
  using register_item_keeps_keys [of n g] update_uri_item_map [of n g r g']
  by (cases "register_item n g") auto

lemma update_uri_plain_keeps_bindings:
  "update_uri n g = (r, g') \<Longrightarrow> \<not> startswith_slash n \<Longrightarrow> map_of (item_map g) k = Some p
   \<Longrightarrow> map_of (item_map g') k = Some p"
  using update_uri_item_map [of n g r g']
  by (auto simp: register_item_def map_of_dict_update dict_contains_def split: if_splits)

text \<open>
  Claim C3. On a router as its constructor seeds it, with a service attached:
  \<open>update_uri "ticket"\<close> resolves to the seeded path \<open>/Ticket\<close> and leaves the map as it
  is; \<open>update_uri "/customthing"\<close> appends the entry \<open>customthing \<mapsto> /customthing\<close> and
  resolves to \<open>/customthing\<close>; a later \<open>update_uri "customthing"\<close> changes nothing and
  resolves to the same path; \<open>update_uri "foo"\<close> appends \<open>foo \<mapsto> /foo\<close>.
\<close>

theorem update_uri_examples:
  "update_uri ''ticket'' ((GLPI_init u a t None v w)\<lparr>api_rest := Some s\<rparr>)
     = (Inr (), (GLPI_init u a t None v w)
                  \<lparr>item_uri := Some ''/Ticket'', api_rest := Some (s\<lparr>uri := Some ''/Ticket''\<rparr>)\<rparr>)
   \<and> update_uri ''/customthing'' ((GLPI_init u a t None v w)\<lparr>api_rest := Some s\<rparr>)
     = (Inr (), (GLPI_init u a t None v w)
                  \<lparr>item_map := default_item_map @ [(''customthing'', ''/customthing'')],
                   item_uri := Some ''/customthing'',
                   api_rest := Some (s\<lparr>uri := Some ''/customthing''\<rparr>)\<rparr>)
   \<and> update_uri ''customthing''
         ((GLPI_init u a t None v w)
            \<lparr>item_map := default_item_map @ [(''customthing'', ''/customthing'')],
             item_uri := Some ''/customthing'',
             api_rest := Some (s\<lparr>uri := Some ''/customthing''\<rparr>)\<rparr>)
     = (Inr (), (GLPI_init u a t None v w)
                  \<lparr>item_map := default_item_map @ [(''customthing'', ''/customthing'')],
                   item_uri := Some ''/customthing'',
                   api_rest := Some (s\<lparr>uri := Some ''/customthing''\<rparr>)\<rparr>)
   \<and> update_uri ''foo'' ((GLPI_init u a t None v w)\<lparr>api_rest := Some s\<rparr>)
     = (Inr (), (GLPI_init u a t None v w)
                  \<lparr>item_map := default_item_map @ [(''foo'', ''/foo'')],
                   item_uri := Some ''/foo'',
                   api_rest := Some (s\<lparr>uri := Some ''/foo''\<rparr>)\<rparr>)"
  by (simp add: update_uri_def register_item_def dict_contains_def set_item_def dict_get_def
        set_api_uri_def set_uri_def GLPI_init_def default_item_map_def startswith_slash_def
        py_index_def)

text \<open>
  Claim C10. The claim is that a call never rebinds a name that the map already holds.
  The code tests the name as given and, for a path-like name, writes the segment after the
  separator: on the seeded router \<open>update_uri "/ticket"\<close> returns normally and leaves
  \<open>ticket\<close> bound to \<open>/ticket\<close>, where it was bound to \<open>/Ticket\<close>.
  What the code does keep is stated by \<open>update_uri_keeps_keys\<close> (no key is ever removed) and
  \<open>update_uri_plain_keeps_bindings\<close> (a name without a leading separator rebinds nothing).
\<close>

theorem update_uri_rebinds_ticket:
  "map_of (item_map (demo_glpi\<lparr>api_rest := Some demo_service\<rparr>)) ''ticket'' = Some ''/Ticket''
   \<and> fst (update_uri ''/ticket'' (demo_glpi\<lparr>api_rest := Some demo_service\<rparr>)) = Inr ()
   \<and> map_of (item_map (snd (update_uri ''/ticket'' (demo_glpi\<lparr>api_rest := Some demo_service\<rparr>))))
        ''ticket'' = Some ''/ticket''"
  by (simp add: update_uri_def register_item_def dict_contains_def set_item_def dict_get_def
        set_api_uri_def set_uri_def GLPI_init_def default_item_map_def startswith_slash_def
        py_index_def demo_glpi_def)

section \<open>The server-side search query\<close>

lemma criterion_fieldD:
  "criterion_field c = Some f \<Longrightarrow> \<exists>cd. c = PDict cd \<and> map_of cd ''field'' = Some (PStr f)"
  by (auto simp: criterion_field_def split: pyval.splits option.splits)

lemma search_engine_part_unmapped:
  assumes "criterion_field c = Some f" and "map_of field_map f = None"
  shows "search_engine_part e i c = Inl KeyError"
proof -
  from assms(1) obtain cd where c: "c = PDict cd" "map_of cd ''field'' = Some (PStr f)"
    by (auto dest: criterion_fieldD)
  with assms(2) show ?thesis
    by (simp add: search_engine_part_def dict_get_def)
qed

lemma search_engine_part_raises_KeyError:
  assumes "criterion_field c = Some f" and "search_engine_part e i c = Inl x"
  shows "x = KeyError"
proof -
  from assms(1) obtain cd where c: "c = PDict cd" "map_of cd ''field'' = Some (PStr f)"
    by (auto dest: criterion_fieldD)
  with assms(2) show ?thesis
    by (auto simp: search_engine_part_def dict_get_def Let_def split: option.splits sum.splits if_splits)
qed

lemma search_engine_query_unmapped:
  assumes "\<forall>c\<in>set cs. criterion_field c \<noteq> None"
    and "\<exists>c\<in>set cs. \<exists>f. criterion_field c = Some f \<and> map_of field_map f = None"
  shows "search_engine_query e cs i q = Inl KeyError"
  using assms
proof (induction cs arbitrary: i q)
  case Nil
  then show ?case by simp
next
  case (Cons c cs)
  from Cons.prems(1) obtain f where f: "criterion_field c = Some f" by auto
  show ?case
  proof (cases "search_engine_part e i c")
    case (Inl x)
    with f have "x = KeyError" by (rule search_engine_part_raises_KeyError)
    with Inl show ?thesis by simp
  next
    case (Inr part)
    with f have "map_of field_map f \<noteq> None"
      using search_engine_part_unmapped [of c f e i] by auto
    with f Cons.prems(2)
    have "\<exists>c\<in>set cs. \<exists>f. criterion_field c = Some f \<and> map_of field_map f = None"
      by auto
    with Cons.IH [of "Suc i" "q @ part"] Cons.prems(1) Inr show ?thesis by simp
  qed
qed

text \<open>
  Claim C5. Let the criteria list consist of criteria (dicts with a string \<open>field\<close>), one of
  them naming a field that the static table does not hold. Then \<open>search_engine\<close> raises
  \<open>KeyError\<close>, a \<open>LookupError\<close>, and the router and the list of issued requests are
  untouched: no session was initialised and no GET was sent.
\<close>

theorem search_engine_unmapped_field_raises_before_any_request:
  assumes "py_getitem criteria ''criteria'' = Inr (PList cs)"
    and "\<forall>c\<in>set cs. criterion_field c \<noteq> None"
    and "\<exists>c\<in>set cs. \<exists>f. criterion_field c = Some f \<and> map_of field_map f = None"
  shows "GLPI_search_engine e item_name criteria g net = (Inl KeyError, g, net)
         \<and> is_LookupError KeyError"
  using assms(1) search_engine_query_unmapped [OF assms(2,3)]
  by (simp add: GLPI_search_engine_def)

theorem search_engine_unmapped_field_raises_before_any_request_witness:
  "GLPI_search_engine (demo_env (server_up (PList []))) ''Computer'' demo_criteria demo_glpi []
     = (Inl KeyError, demo_glpi, [])"
proof -
  let ?cs = "[PDict [(''field'', PStr ''name''), (''value'', PStr ''srv''),
                           (''searchtype'', PStr ''contains''), (''link'', PStr ''AND'')],
                    PDict [(''field'', PStr ''colour''), (''value'', PStr ''red''),
                           (''searchtype'', PStr ''contains''), (''link'', PStr ''AND'')]]"
  have a: "py_getitem demo_criteria ''criteria'' = Inr (PList ?cs)"
    by (simp add: demo_criteria_def dict_get_def)
  have b: "\<forall>c\<in>set ?cs. criterion_field c \<noteq> None"
    by (simp add: criterion_field_def)
  have c: "\<exists>c\<in>set ?cs. \<exists>f. criterion_field c = Some f \<and> map_of field_map f = None"
    by (simp add: criterion_field_def field_map_def)
  from search_engine_unmapped_field_raises_before_any_request [OF a b c]
  show ?thesis by simp
qed

section \<open>Fetching one item\<close>

lemma update_uri_ok:
  assumes "api_rest g = Some s"
  shows "\<exists>p. update_uri n g
           = (Inr (), (snd (register_item n g))\<lparr>item_uri := Some p, api_rest := Some (s\<lparr>uri := Some p\<rparr>)\<rparr>)"
proof (cases "map_of (item_map g) n")
  case (Some p)
  with assms show ?thesis
    by (auto simp: update_uri_present register_item_def dict_contains_def)
next
  case None
  show ?thesis
  proof (cases "startswith_slash n")
    case True
    then obtain cs where n: "n = CHR ''/'' # cs"
      by (auto simp: startswith_slash_def split: list.splits)
    with None assms show ?thesis
      by (auto simp: update_uri_path register_item_def dict_contains_def py_split_slash_second
               startswith_slash_def simp del: py_split.simps)
  next
    case False
    with None assms show ?thesis
      by (auto simp: update_uri_plain register_item_def dict_contains_def dict_update_absent)
  qed
qed

lemma init_from_vcap_session:
  "init_from_vcap e vn s = Inr s' \<Longrightarrow> session s' = session s"
  by (auto simp: init_from_vcap_def Let_def split: sum.splits option.splits if_splits)

lemma GlpiService_init_session:
  "GlpiService_init e u app uri0 un pw ta vc vn ssl wr = Inr s \<Longrightarrow> session s = PNone"
  by (auto simp: GlpiService_init_def Let_def set_token_auth_def set_username_and_password_def
           split: if_splits sum.splits dest: init_from_vcap_session)

lemma init_api_ok:
  assumes "init_api e g net = (Inr v, g1, net1)"
  shows "\<exists>s0 s'. api_rest g1 = Some s' \<and> net1 = net @ [init_request s0]"
proof -
  from assms obtain s0 where
    c: "GlpiService_init e (r_url g) (r_app_token g) None None None (auth_token g)
          False None (r_sslverify g) (r_writable g) = Inr s0"
    by (auto simp: init_api_def split: sum.splits)
  then have n: "session s0 = PNone" by (rule GlpiService_init_session)
  from assms c obtain tok s' where
    t: "get_session_token e s0 net = (Inr tok, s', net1)" and g1: "api_rest g1 = Some s'"
    by (auto simp: init_api_def split: sum.splits prod.splits)
  from t n obtain b where "set_session_token e s0 net = (Inr b, s', net1)"
    by (auto simp: get_session_token_def split: prod.splits sum.splits)
  then have "net1 = net @ [init_request s0]" by (rule set_session_token_net)
  with g1 show ?thesis by blast
qed

lemma get_non_integer_after_update_uri:
  assumes "\<not> is_int item_id" and "item_id \<noteq> PNone" and "api_rest g = Some s"
  shows "\<exists>g'. (case update_uri n g of
                 (Inl x, g2) \<Rightarrow> (Inl x, g2, net)
               | (Inr u, g2) \<Rightarrow> call_api (get e item_id x) g2 net)
           = (Inr (PDict [(''error_message'',
                           PStr (''Unale to get '' @ str_opt (item_uri g') @ '' ID [''
                                   @ py_str e item_id @ '']''))]), g', net)"
proof -
  from update_uri_ok [OF assms(3), of n] obtain p where
    u: "update_uri n g = (Inr (), (snd (register_item n g))\<lparr>item_uri := Some p, api_rest := Some (s\<lparr>uri := Some p\<rparr>)\<rparr>)"
    by blast
  show ?thesis
    using assms(1,2) u by (simp add: call_api_def get_def)
qed

text \<open>
  Claim C6, as the code has it. Let the id be neither an integer nor \<open>None\<close>. On a router
  that holds a session, \<open>get\<close> returns the map \<open>{'error_message': 'Unale to get <path> ID
  [<id>]'}\<close>, raises nothing and issues no request. On a router without a session, \<open>get\<close>
  first runs \<open>init_api\<close>; when that returns, exactly one request, the \<open>initSession\<close> one,
  has been issued, and \<open>get\<close> returns the same map and issues nothing more.
\<close>

theorem GLPI_get_non_integer_id:
  assumes "\<not> is_int item_id" and "item_id \<noteq> PNone"
  shows "(api_session g \<noteq> PNone \<and> api_rest g \<noteq> None \<longrightarrow>
            (\<exists>g'. GLPI_get e n item_id x g net
                    = (Inr (PDict [(''error_message'',
                                    PStr (''Unale to get '' @ str_opt (item_uri g') @ '' ID [''
                                            @ py_str e item_id @ '']''))]), g', net)))
       \<and> (api_session g = PNone \<longrightarrow>
            (\<forall>v g1 net1. init_api e g net = (Inr v, g1, net1) \<longrightarrow>
               (\<exists>g' s0. GLPI_get e n item_id x g net
                    = (Inr (PDict [(''error_message'',
                                    PStr (''Unale to get '' @ str_opt (item_uri g') @ '' ID [''
                                            @ py_str e item_id @ '']''))]), g', net1)
                  \<and> net1 = net @ [init_request s0])))"
proof (intro conjI impI allI)
  assume "api_session g \<noteq> PNone \<and> api_rest g \<noteq> None"
  then obtain s where a: "api_session g \<noteq> PNone" and s: "api_rest g = Some s" by auto
  from get_non_integer_after_update_uri [OF assms s, where n = n and net = net and e = e and x = x] a
  show "\<exists>g'. GLPI_get e n item_id x g net
                    = (Inr (PDict [(''error_message'',
                                    PStr (''Unale to get '' @ str_opt (item_uri g') @ '' ID [''
                                            @ py_str e item_id @ '']''))]), g', net)"
    using assms(2)
    by (auto simp: GLPI_get_def routed_def ensure_session_def api_has_session_def
          except_GlpiException_def)
next
  fix v g1 net1
  assume a: "api_session g = PNone" and i: "init_api e g net = (Inr v, g1, net1)"
  from init_api_ok [OF i] obtain s0 s' where
    s': "api_rest g1 = Some s'" and n: "net1 = net @ [init_request s0]" by blast
  from get_non_integer_after_update_uri [OF assms s', where n = n and net = net1 and e = e and x = x] obtain g' where
    "(case update_uri n g1 of
                 (Inl x, g2) \<Rightarrow> (Inl x, g2, net1)
               | (Inr u, g2) \<Rightarrow> call_api (get e item_id x) g2 net1)
           = (Inr (PDict [(''error_message'',
                           PStr (''Unale to get '' @ str_opt (item_uri g') @ '' ID [''
                                   @ py_str e item_id @ '']''))]), g', net1)"
    by blast
  with a i assms(2)
  have "GLPI_get e n item_id x g net
                    = (Inr (PDict [(''error_message'',
                                    PStr (''Unale to get '' @ str_opt (item_uri g') @ '' ID [''
                                            @ py_str e item_id @ '']''))]), g', net1)"
    by (simp add: GLPI_get_def routed_def ensure_session_def api_has_session_def
          except_GlpiException_def)
  with n show "\<exists>g' s0. GLPI_get e n item_id x g net
                    = (Inr (PDict [(''error_message'',
                                    PStr (''Unale to get '' @ str_opt (item_uri g') @ '' ID [''
                                            @ py_str e item_id @ '']''))]), g', net1)
                  \<and> net1 = net @ [init_request s0]"
    by blast
qed

lemma demo_init_api:
  "init_api (demo_env (server_up body)) demo_glpi []
     = (Inr (PDict [(''session_token'', PStr ''s3cr3t'')]),
        demo_glpi\<lparr>api_rest := Some (demo_service\<lparr>session := PStr ''s3cr3t''\<rparr>),
                   api_session := PStr ''s3cr3t''\<rparr>,
        [init_request demo_service])"
  by (simp add: init_api_def GlpiService_init_def set_token_auth_def demo_glpi_def GLPI_init_def
        get_session_token_def set_session_token_def requests_request_def demo_env_def
        server_up_def init_request_def demo_service_def response_json_def dict_get_def)

lemma demo_glpi_fields:
  "api_session demo_glpi = PNone" "api_rest demo_glpi = None"
  "item_map demo_glpi = default_item_map"
  by (simp_all add: demo_glpi_def GLPI_init_def)

text \<open>
  Claim C6 as the spec states it, that no request is ever issued, fails on the router as
  constructed: the first operation initialises the session, and that is a request.
\<close>

theorem GLPI_get_non_integer_id_counterexample:
  "snd (snd (GLPI_get (demo_env (server_up (PList []))) ''ticket'' (PStr ''abc'') False demo_glpi []))
     = [init_request demo_service]
   \<and> [init_request demo_service] \<noteq> []"
  by (simp add: GLPI_get_def routed_def ensure_session_def api_has_session_def demo_init_api
        except_GlpiException_def call_api_def get_def demo_glpi_fields default_item_map_def
        update_uri_def register_item_def dict_contains_def set_item_def dict_get_def
        set_api_uri_def)

theorem GLPI_get_non_integer_id_witness:
  "snd (snd (GLPI_get (demo_env server_down) ''ticket'' (PStr ''abc'') False
               (demo_glpi\<lparr>api_rest := Some (demo_service\<lparr>session := PStr ''s3cr3t''\<rparr>),
                          api_session := PStr ''s3cr3t''\<rparr>) [])) = []
   \<and> (\<exists>m. fst (GLPI_get (demo_env server_down) ''ticket'' (PStr ''abc'') False
               (demo_glpi\<lparr>api_rest := Some (demo_service\<lparr>session := PStr ''s3cr3t''\<rparr>),
                          api_session := PStr ''s3cr3t''\<rparr>) [])
            = Inr (PDict [(''error_message'', PStr m)]))
   \<and> api_session demo_glpi = PNone
   \<and> (\<exists>m. fst (GLPI_get (demo_env (server_up (PList []))) ''ticket'' (PStr ''abc'') False demo_glpi [])
            = Inr (PDict [(''error_message'', PStr m)]))"
proof -
  let ?g = "demo_glpi\<lparr>api_rest := Some (demo_service\<lparr>session := PStr ''s3cr3t''\<rparr>),
                          api_session := PStr ''s3cr3t''\<rparr>"
  have h1: "\<not> is_int (PStr ''abc'')" and h2: "PStr ''abc'' \<noteq> PNone" by simp_all
  note t = GLPI_get_non_integer_id [OF h1 h2]
  have a: "api_session ?g \<noteq> PNone \<and> api_rest ?g \<noteq> None" by simp
  from t [of ?g "demo_env server_down" "''ticket''" False "[]"] a
  obtain g' where 1: "GLPI_get (demo_env server_down) ''ticket'' (PStr ''abc'') False ?g []
      = (Inr (PDict [(''error_message'',
                      PStr (''Unale to get '' @ str_opt (item_uri g') @ '' ID [''
                              @ py_str (demo_env server_down) (PStr ''abc'') @ '']''))]), g', [])"
    by blast
  have b: "api_session demo_glpi = PNone" by (simp add: demo_glpi_def GLPI_init_def)
  from t [of demo_glpi "demo_env (server_up (PList []))" "''ticket''" False "[]"] b
    demo_init_api [of "PList []"]
  obtain g'' where 2: "GLPI_get (demo_env (server_up (PList []))) ''ticket'' (PStr ''abc'') False demo_glpi []
      = (Inr (PDict [(''error_message'',
                      PStr (''Unale to get '' @ str_opt (item_uri g'') @ '' ID [''
                              @ py_str (demo_env (server_up (PList []))) (PStr ''abc'') @ '']''))]),
         g'', [init_request demo_service])"
    by blast
  from 1 2 b show ?thesis by simp
qed

section \<open>Listing items\<close>

lemma get_all_query_plain:
  "get_all_query e (map (\<lambda>(f, v). PDict [(''field'', PStr f), (''value'', PStr v)]) fvs) i q
     = Inr (q @ concat (map (\<lambda>(f, v). ''searchText['' @ f @ '']='' @ v) fvs))"
  by (induction fvs arbitrary: i q) (auto simp: dict_get_def)

lemma demo_routed_get_all:
  "py_strip CHR ''/'' (''/Ticket'' @ q) \<noteq> ''initSession'' \<Longrightarrow>
   routed (demo_env (server_up body)) ''ticket'' (get_all (demo_env (server_up body)) False q) demo_glpi []
     = (Inr body,
        demo_glpi\<lparr>item_uri := Some ''/Ticket'',
                   api_rest := Some (demo_service\<lparr>session := PStr ''s3cr3t'', uri := Some ''/Ticket''\<rparr>),
                   api_session := PStr ''s3cr3t''\<rparr>,
        [init_request demo_service,
         \<lparr>req_method = ''GET'',
          req_url = ''http://glpi/apirest.php/'' @ py_strip CHR ''/'' (''/Ticket'' @ q),
          req_auth = None,
          req_headers = [(''user-agent'', PStr ''glpi-sdk-python-0.3.0''),
                         (''Session-Token'', PStr ''s3cr3t''), (''App-Token'', PStr ''app'')],
          req_params = Some [], req_data = None, req_verify = True\<rparr>])"
  apply (simp add: routed_def ensure_session_def api_has_session_def demo_init_api demo_glpi_fields
        default_item_map_def update_uri_def register_item_def dict_contains_def set_item_def
        dict_get_def set_api_uri_def set_uri_def call_api_def)
  apply (simp add: get_all_def request_def expand_payload_def json_of_def requests_request_def
        demo_service_def demo_env_def server_up_def response_json_def py_lower_def ascii_lower_def
        lower_char_def
        ci_update_all_def remove_null_values_def cleanup_param_values_def)
  done


lemma demo_get_all_default:
  "GLPI_get_all (demo_env (server_up body)) ''ticket'' False PNone demo_glpi []
     = (Inr body,
        demo_glpi\<lparr>item_uri := Some ''/Ticket'',
                   api_rest := Some (demo_service\<lparr>session := PStr ''s3cr3t'', uri := Some ''/Ticket''\<rparr>),
                   api_session := PStr ''s3cr3t''\<rparr>,
        [init_request demo_service,
         \<lparr>req_method = ''GET'',
          req_url = ''http://glpi/apirest.php/Ticket?range=0-5000'',
          req_auth = None,
          req_headers = [(''user-agent'', PStr ''glpi-sdk-python-0.3.0''),
                         (''Session-Token'', PStr ''s3cr3t''), (''App-Token'', PStr ''app'')],
          req_params = Some [], req_data = None, req_verify = True\<rparr>])"
proof -
  have "py_strip CHR ''/'' (''/Ticket'' @ ''?range=0-5000'') = ''Ticket?range=0-5000''"
    by (simp add: py_strip_def)
  then show ?thesis
    using demo_routed_get_all [of "''?range=0-5000''" body]
    by (simp add: GLPI_get_all_def except_GlpiException_def)
qed

text \<open>
  Claim C7. With no search text the GET goes to \<open><path>?range=0-5000\<close>, as claimed. With
  the two criteria \<open>name = a\<close> and \<open>id = b\<close> the claim asks for
  \<open>?searchText[name]=a&searchText[id]=b\<close>; the code sends
  \<open>?searchText[name]=asearchText[id]=b\<close>. The loop computes the separator in every round and
  never appends it (\<open>get_all_query_plain\<close> gives the query for every list of criteria).
\<close>

theorem get_all_query_without_separator:
  "map req_url (snd (snd (GLPI_get_all (demo_env (server_up (PList []))) ''ticket'' False
                            demo_search_text demo_glpi [])))
     = [''http://glpi/apirest.php/initSession'',
        ''http://glpi/apirest.php/Ticket?searchText[name]=asearchText[id]=b'']
   \<and> map req_url (snd (snd (GLPI_get_all (demo_env (server_up (PList []))) ''ticket'' False
                            PNone demo_glpi [])))
     = [''http://glpi/apirest.php/initSession'',
        ''http://glpi/apirest.php/Ticket?range=0-5000'']"
proof -
  have q: "get_all_query (demo_env (server_up (PList [])))
             [PDict [(''field'', PStr ''name''), (''value'', PStr ''a'')],
              PDict [(''field'', PStr ''id''), (''value'', PStr ''b'')]] 0 ''?''
           = Inr ''?searchText[name]=asearchText[id]=b''"
    by (simp add: dict_get_def)
  have s: "py_strip CHR ''/'' (''/Ticket'' @ ''?searchText[name]=asearchText[id]=b'')
             = ''Ticket?searchText[name]=asearchText[id]=b''"
    by (simp add: py_strip_def)
  have i: "req_url (init_request demo_service) = ''http://glpi/apirest.php/initSession''"
    by (simp add: init_request_def demo_service_def)
  from s have "map req_url (snd (snd (GLPI_get_all (demo_env (server_up (PList []))) ''ticket'' False
                            demo_search_text demo_glpi [])))
     = [''http://glpi/apirest.php/initSession'',
        ''http://glpi/apirest.php/Ticket?searchText[name]=asearchText[id]=b'']"
    using demo_routed_get_all [of "''?searchText[name]=asearchText[id]=b''" "PList []"] q i
    by (simp add: GLPI_get_all_def demo_search_text_def dict_get_def except_GlpiException_def)
  moreover have "map req_url (snd (snd (GLPI_get_all (demo_env (server_up (PList []))) ''ticket'' False
                            PNone demo_glpi [])))
     = [''http://glpi/apirest.php/initSession'',
        ''http://glpi/apirest.php/Ticket?range=0-5000'']"
    using i by (simp add: demo_get_all_default)
  ultimately show ?thesis by simp
qed


section \<open>Session failures under the router\<close>

lemma except_GlpiException_catches:
  "is_GlpiException x \<Longrightarrow> fst (except_GlpiException r) \<noteq> Inl x"
  by (cases r) (auto simp: except_GlpiException_def split: sum.splits)

lemma routed_session_failure:
  assumes "ensure_session e g net = (Inl x, g1, net1)" and "is_GlpiException x"
  shows "except_GlpiException (routed e n f g net) = (Inr (PSet [PStr (exn_str x)]), g1, net1)"
  using assms by (simp add: routed_def except_GlpiException_def)

lemma demo_ensure_session_down:
  "ensure_session (demo_env server_down) demo_glpi []
     = (Inl (GlpiException demo_session_error), demo_glpi\<lparr>api_rest := Some demo_service\<rparr>,
        [init_request demo_service])"
  by (simp add: ensure_session_def api_has_session_def init_api_def GlpiService_init_def
        set_token_auth_def demo_glpi_def GLPI_init_def get_session_token_def
        set_session_token_def requests_request_def demo_env_def server_down_def
        init_request_def demo_service_def init_error_message_def demo_session_error_def)

lemmas demo_down = routed_session_failure [OF demo_ensure_session_down, simplified]

text \<open>
  Claim C1. Against a server that refuses \<open>initSession\<close>, the seven operations that carry
  the handler return a Python set holding the message of the exception, not a map with the
  key \<open>message_error\<close>; \<open>search\<close>, which has no handler, hands that set to
  \<open>search_criteria\<close> and raises \<open>TypeError\<close>. That no \<open>GlpiException\<close> leaves the seven is
  \<open>except_GlpiException_catches\<close>; what they return on a failed session is
  \<open>routed_session_failure\<close>.
\<close>

theorem session_failure_returns_set:
  "fst (GLPI_create (demo_env server_down) ''ticket'' (Some [(''name'', PStr ''x'')]) demo_glpi [])
     = Inr (PSet [PStr demo_session_error])
   \<and> fst (GLPI_get_all (demo_env server_down) ''ticket'' False PNone demo_glpi [])
     = Inr (PSet [PStr demo_session_error])
   \<and> fst (GLPI_get (demo_env server_down) ''ticket'' (PInt 1) False demo_glpi [])
     = Inr (PSet [PStr demo_session_error])
   \<and> fst (GLPI_search_options (demo_env server_down) ''Ticket'' demo_glpi [])
     = Inr (PSet [PStr demo_session_error])
   \<and> fst (GLPI_search_engine (demo_env server_down) ''Ticket'' (PDict [(''criteria'', PList [])])
            demo_glpi [])
     = Inr (PSet [PStr demo_session_error])
   \<and> fst (GLPI_update (demo_env server_down) ''ticket'' [(''id'', PInt 1)] demo_glpi [])
     = Inr (PSet [PStr demo_session_error])
   \<and> fst (GLPI_delete (demo_env server_down) ''ticket'' (PInt 1) False demo_glpi [])
     = Inr (PSet [PStr demo_session_error])
   \<and> fst (GLPI_search (demo_env server_down) ''ticket''
            (PDict [(''criteria'', PList [PDict [(''field'', PStr ''name''),
                                                (''value'', PStr ''server'')]])])
            False demo_glpi [])
     = Inl TypeError"
  by (simp add: GLPI_create_def GLPI_get_all_def GLPI_get_def GLPI_search_options_def
        GLPI_search_engine_def GLPI_update_def GLPI_delete_def GLPI_search_def demo_down
        dict_get_def dict_contains_def search_criteria_def criterion_test_def)

section \<open>Client-side search\<close>














end
